theory Spec2Isabelle
  imports Complex_Main
begin

section \<open>The VCE RARE notebook: the CSV size estimator\<close>

text \<open>
  The \<^emph>\<open>Memory check\<close> cell of \<^verbatim>\<open>notebooks/work-in-progress/VCERARE.ipynb\<close>:
  \<^verbatim>\<open>
  test_df = plot_df
  mem_usage_bytes = test_df.memory_usage(deep=True).sum()
  mem_usage_mb = mem_usage_bytes / (1024 * 1024)
  csv_size_estimate_mb = mem_usage_mb * 2  # Rough multiplier for CSV size
  print(f"Estimated CSV size: {csv_size_estimate_mb:.2f} MB")
  \<close>
  \<open>memory_usage(deep=True)\<close> is a series of byte counts, the index first and then one
  entry per column. What the dataframe library counts for a column is outside the
  notebook, so a frame is given here by these counts. A byte count is an integer below
  \<open>2 ^ 53\<close>, so the division by \<open>2 ^ 20\<close> and the doubling are exact in binary floating
  point, and the values are modelled as exact numbers.
\<close>

record frame_usage =
  index_bytes :: nat
  column_bytes :: "(string \<times> nat) list"

definition memory_usage_deep :: "frame_usage \<Rightarrow> nat list" where
  "memory_usage_deep df = index_bytes df # map snd (column_bytes df)"

definition mem_usage_bytes :: "frame_usage \<Rightarrow> nat" where
  "mem_usage_bytes test_df = sum_list (memory_usage_deep test_df)"

definition mem_usage_mb :: "frame_usage \<Rightarrow> real" where
  "mem_usage_mb test_df = of_nat (mem_usage_bytes test_df) / (1024 * 1024)"

definition csv_size_estimate_mb :: "frame_usage \<Rightarrow> real" where
  "csv_size_estimate_mb test_df = mem_usage_mb test_df * 2"

text \<open>
  The format specification \<open>.2f\<close> prints the value rounded to two decimals, a tie going
  to the even neighbour. The estimate is never negative, so no sign is printed.
\<close>

definition round_half_even :: "real \<Rightarrow> int" where
  "round_half_even x =
     (let f = \<lfloor>x\<rfloor>; d = x - of_int f
      in if d < 1 / 2 then f
         else if 1 / 2 < d then f + 1
         else if even f then f else f + 1)"

definition digit_char :: "nat \<Rightarrow> char" where
  "digit_char d = ''0123456789'' ! d"

fun str_nat :: "nat \<Rightarrow> string" where
  "str_nat n = (if n < 10 then [digit_char n] else str_nat (n div 10) @ [digit_char (n mod 10)])"

declare str_nat.simps [simp del]

definition format_2f :: "real \<Rightarrow> string" where
  "format_2f x =
     (let m = nat (round_half_even (x * 100))
      in str_nat (m div 100) @ ''.'' @ [digit_char (m mod 100 div 10), digit_char (m mod 10)])"

text \<open>
  A cell either completes, with the lines it printed, or stops at an exception. The
  memory check has one statement after the other and no branch, so it has only the
  first outcome.
\<close>

datatype cell_result = Completed "string list" | Raised string

definition memory_check_cell :: "frame_usage \<Rightarrow> cell_result" where
  "memory_check_cell test_df =
     Completed [''Estimated CSV size: '' @ format_2f (csv_size_estimate_mb test_df) @ '' MB'']"

section \<open>The VCE RARE notebook: names bound and read by the cells\<close>

text \<open>
  A notebook is a list of code cells, a cell a list of statements. The kernel keeps one
  global namespace for all cells. Evaluating a name that is bound neither by an earlier
  statement nor by the kernel itself raises \<open>NameError\<close> and ends the cell; what the
  cell bound before stays bound. Library calls are taken to return: the model follows
  name resolution only. The notebook's kernel is Python 3.12, where the f-strings of the
  histogram cell, which nest double quotes, are valid syntax.

  A statement is given by the global names it reads, in the order in which Python first
  evaluates them (the callee before its arguments, the arguments from left to right, a
  name inside an f-string where the string stands), and by the name it binds once its
  right-hand side has been evaluated. The variable of a comprehension is local to it and
  is not listed.
\<close>

datatype py_error = NameError string | AttributeError string

datatype stmt =
    Import string
  | Assign string "string list"
  | Expr "string list"
  | Chart "string list"

fun reads :: "stmt \<Rightarrow> string list" where
  "reads (Import n) = []"
| "reads (Assign n rs) = rs"
| "reads (Expr rs) = rs"
| "reads (Chart rs) = rs"

fun binds :: "stmt \<Rightarrow> string list" where
  "binds (Import n) = [n]"
| "binds (Assign n rs) = [n]"
| "binds (Expr rs) = []"
| "binds (Chart rs) = []"

fun shows_chart :: "stmt \<Rightarrow> nat" where
  "shows_chart (Chart rs) = 1"
| "shows_chart s = 0"

text \<open>The first name of a list that is not bound, if there is one.\<close>

fun unbound_read :: "string set \<Rightarrow> string list \<Rightarrow> string list \<Rightarrow> string option" where
  "unbound_read B ns [] = None"
| "unbound_read B ns (x # xs) =
     (if x \<in> B \<or> x \<in> set ns then unbound_read B ns xs else Some x)"

text \<open>
  The outcome of a cell, with the number of charts it displayed. \<open>B\<close> holds the names a
  fresh kernel binds by itself (the builtins), \<open>ns\<close> the names bound so far.
\<close>

datatype outcome = Finished nat | Failed py_error nat

fun run_cell :: "string set \<Rightarrow> string list \<Rightarrow> nat \<Rightarrow> stmt list \<Rightarrow> string list \<times> outcome" where
  "run_cell B ns k [] = (ns, Finished k)"
| "run_cell B ns k (s # ss) =
     (case unbound_read B ns (reads s) of
        Some x \<Rightarrow> (ns, Failed (NameError x) k)
      | None \<Rightarrow> run_cell B (ns @ binds s) (k + shows_chart s) ss)"

text \<open>
  Two ways to go through the notebook from top to bottom: \<open>run_cells\<close> evaluates every
  cell, as a reader does who runs them one by one; \<open>run_all\<close> stops at the first cell
  that fails, as the command that runs all cells does.
\<close>

fun run_cells :: "string set \<Rightarrow> string list \<Rightarrow> stmt list list \<Rightarrow> outcome list" where
  "run_cells B ns [] = []"
| "run_cells B ns (c # cs) =
     (case run_cell B ns 0 c of (ns', out) \<Rightarrow> out # run_cells B ns' cs)"

fun run_all :: "string set \<Rightarrow> string list \<Rightarrow> stmt list list \<Rightarrow> outcome list" where
  "run_all B ns [] = []"
| "run_all B ns (c # cs) =
     (case run_cell B ns 0 c of
        (ns', Finished k) \<Rightarrow> Finished k # run_all B ns' cs
      | (ns', Failed e k) \<Rightarrow> [Failed e k])"

definition defined_names :: "stmt list list \<Rightarrow> string set" where
  "defined_names nb = set (concat (map binds (concat nb)))"

text \<open>The code cells of \<^verbatim>\<open>VCERARE.ipynb\<close>, in the order of the file.\<close>

definition cell_imports :: "stmt list" where
  "cell_imports =
     [Import ''alt'', Import ''io'', Import ''plt'', Import ''os'', Import ''pd'',
      Import ''random'', Import ''sys'', Import ''pudl'',
      Assign ''pudl_paths'' [''pudl'']]"

definition cell_load :: "stmt list" where
  "cell_load =
     [Assign ''rare_df'' [''pd'', ''pudl_paths''],
      Expr [''rare_df'']]"

definition cell_filter :: "stmt list" where
  "cell_filter =
     [Assign ''filtered_df'' [''rare_df''],
      Expr [''filtered_df'']]"

definition cell_random_county :: "stmt list" where
  "cell_random_county =
     [Assign ''random_county_id_fips'' [''random'', ''rare_df''],
      Expr [''random_county_id_fips'']]"

definition cell_hist_settings :: "stmt list" where
  "cell_hist_settings =
     [Assign ''hist_year'' [],
      Assign ''hist_county_id_fips'' [''random_county_id_fips''],
      Assign ''hist_gen_type'' []]"

definition cell_histogram :: "stmt list" where
  "cell_histogram =
     [Assign ''plot_df'' [''rare_df'', ''hist_year'', ''hist_county_id_fips''],
      Assign ''county_name'' [''plot_df'', ''hist_county_id_fips''],
      Assign ''state_name'' [''plot_df'', ''hist_county_id_fips''],
      Expr [''plt'', ''plot_df'', ''gen_type''],
      Expr [''plt'', ''county_name'', ''state_name'', ''hist_gen_type'', ''plot_df'', ''gen_type''],
      Expr [''plt''],
      Chart [''plt'']]"

definition cell_memory_check :: "stmt list" where
  "cell_memory_check =
     [Assign ''test_df'' [''plot_df''],
      Assign ''mem_usage_bytes'' [''test_df''],
      Assign ''mem_usage_mb'' [''mem_usage_bytes''],
      Assign ''csv_size_estimate_mb'' [''mem_usage_mb''],
      Expr [''print'', ''csv_size_estimate_mb'']]"

definition cell_download :: "stmt list" where
  "cell_download =
     [Assign ''download_df'' [''plot_df''],
      Assign ''download_path'' [],
      Expr [''download_df'', ''download_path'']]"

definition cell_annual_settings :: "stmt list" where
  "cell_annual_settings =
     [Assign ''state'' [],
      Assign ''annual_year'' []]"

definition cell_annual_stats :: "stmt list" where
  "cell_annual_stats =
     [Assign ''cap_fac_cols'' [],
      Assign ''rare_df_copy'' [''rare_df''],
      Expr [''rare_df_copy''],
      Assign ''rare_year_state_subset_raw'' [''rare_df_copy'', ''annual_year'', ''state''],
      Assign ''agg_funcs'' [''cap_fac_cols''],
      Assign ''stats_df'' [''rare_year_state_subset_raw'', ''agg_funcs''],
      Assign ''rare_year_state_subset_final'' [''stats_df''],
      Expr [''rare_year_state_subset_final'']]"

definition cell_annual_chart :: "stmt list" where
  "cell_annual_chart =
     [Assign ''source'' [''rare_year_state_subset_final''],
      Assign ''color'' [''alt''],
      Assign ''brush'' [''alt''],
      Assign ''click'' [''alt''],
      Assign ''points'' [''alt'', ''brush'', ''color'', ''click''],
      Assign ''bars'' [''alt'', ''click'', ''color'', ''brush''],
      Chart [''alt'', ''points'', ''bars'', ''source'', ''state'', ''year'']]"

definition cell_monthly_settings :: "stmt list" where
  "cell_monthly_settings =
     [Assign ''county_id_fips'' [],
      Assign ''monthly_year'' []]"

definition cell_monthly_stats :: "stmt list" where
  "cell_monthly_stats =
     [Assign ''rare_county_year_subset''
        [''rare_df_copy'', ''county_id_fips'', ''monthly_year'', ''cap_fac_cols''],
      Assign ''rare_county_subset_monthly'' [''rare_county_year_subset''],
      Expr [''rare_county_subset_monthly'']]"

definition cell_monthly_chart :: "stmt list" where
  "cell_monthly_chart =
     [Assign ''source'' [''rare_county_subset_monthly''],
      Assign ''base'' [''alt'', ''source'', ''year'', ''list'', ''custom_colors''],
      Assign ''folded'' [''base''],
      Assign ''lines'' [''folded''],
      Assign ''chart'' [''lines'', ''county_id_fips'', ''year''],
      Chart [''chart'']]"

definition cell_last :: "stmt list" where
  "cell_last = []"

definition vcerare_notebook :: "stmt list list" where
  "vcerare_notebook =
     [cell_imports, cell_load, cell_filter, cell_random_county, cell_hist_settings,
      cell_histogram, cell_memory_check, cell_download, cell_annual_settings,
      cell_annual_stats, cell_annual_chart, cell_monthly_settings, cell_monthly_stats,
      cell_monthly_chart, cell_last]"

section \<open>Dataframes: columns, attribute access, assignment\<close>

text \<open>
  A dataframe is its columns in order, each a name with one cell per row. The type of
  the cells is left open. \<open>getattr\<close> is the attribute access \<open>x.name\<close>, which fails
  for a name that is no column; \<open>setitem\<close> is \<open>data[k] = v\<close>, which replaces the column
  \<open>k\<close> where it stands or appends it.
\<close>

type_synonym 'c dataframe = "(string \<times> 'c list) list"

definition getattr :: "'c dataframe \<Rightarrow> string \<Rightarrow> py_error + 'c list" where
  "getattr x name =
     (case map_of x name of None \<Rightarrow> Inl (AttributeError name) | Some col \<Rightarrow> Inr col)"

fun setitem :: "'c dataframe \<Rightarrow> string \<Rightarrow> 'c list \<Rightarrow> 'c dataframe" where
  "setitem [] k v = [(k, v)]"
| "setitem ((n, c) # cols) k v = (if n = k then (k, v) # cols else (n, c) # setitem cols k v)"

text \<open>
  \<open>DataFrame.assign(**kwargs)\<close> works on a copy: it goes through the keyword arguments
  in order, calls each on the frame built so far and stores the result under the keyword.
  An exception of a callable ends the call.
\<close>

fun assign ::
  "'c dataframe \<Rightarrow> (string \<times> ('c dataframe \<Rightarrow> py_error + 'c list)) list \<Rightarrow> py_error + 'c dataframe"
where
  "assign data [] = Inr data"
| "assign data ((k, f) # kwargs) =
     (case f data of Inl e \<Rightarrow> Inl e | Inr v \<Rightarrow> assign (setitem data k v) kwargs)"

section \<open>The FERC 1 validation notebook: the derived ratio columns\<close>

text \<open>
  The cell of \<^verbatim>\<open>test/validate/notebooks/validate_plants_steam_ferc1.ipynb\<close> that
  prepares the table:
  \<^verbatim>\<open>
  plants_steam_ferc1 = (
      pudl_out.plants_steam_ferc1().
      assign(
          water_limited_ratio=lambda x: x.water_limited_capacity_mw / x.capacity_mw,
          not_water_limited_ratio=lambda x: x.not_water_limited_capacity_mw / x.capacity_mw,
          peak_demand_ratio=lambda x: x.peak_demand_mw / x.capacity_mw,
          capability_ratio=lambda x: x.plant_capability_mw / x.capacity_mw,
      )
  )
  \<close>
  The operator \<open>/\<close> on two columns of one frame divides row by row. What the division
  of two cells yields belongs to the dataframe library and its number format; it is the
  parameter \<open>dv\<close>. For the floating-point columns of this table the library returns
  a value for every pair of cells, a zero or null divisor included, so \<open>dv\<close> is a total
  operation on cells.
\<close>

definition truediv :: "('c \<Rightarrow> 'c \<Rightarrow> 'c) \<Rightarrow> 'c list \<Rightarrow> 'c list \<Rightarrow> 'c list" where
  "truediv dv a b = map (\<lambda>(u, v). dv u v) (zip a b)"

text \<open>\<open>lambda x: x.num / x.capacity_mw\<close>: the left operand is evaluated first.\<close>

definition ratio_of ::
  "('c \<Rightarrow> 'c \<Rightarrow> 'c) \<Rightarrow> string \<Rightarrow> 'c dataframe \<Rightarrow> py_error + 'c list" where
  "ratio_of dv num x =
     (case getattr x num of
        Inl e \<Rightarrow> Inl e
      | Inr a \<Rightarrow>
          (case getattr x ''capacity_mw'' of
             Inl e \<Rightarrow> Inl e
           | Inr b \<Rightarrow> Inr (truediv dv a b)))"

definition plants_steam_ferc1 ::
  "('c \<Rightarrow> 'c \<Rightarrow> 'c) \<Rightarrow> 'c dataframe \<Rightarrow> py_error + 'c dataframe" where
  "plants_steam_ferc1 dv tbl =
     assign tbl
       [(''water_limited_ratio'', ratio_of dv ''water_limited_capacity_mw''),
        (''not_water_limited_ratio'', ratio_of dv ''not_water_limited_capacity_mw''),
        (''peak_demand_ratio'', ratio_of dv ''peak_demand_mw''),
        (''capability_ratio'', ratio_of dv ''plant_capability_mw'')]"

text \<open>
  Cells as written expressions, for examples: a number, a null, and the quotient of two
  cells left as it stands.
\<close>

datatype cell = Num real | Null | Quot cell cell

section \<open>The bounds validator\<close>

text \<open>
  Modelled from the spec: the bounds validator. The validation notebook hands its table
  to \<open>pudl.validate.plot_vs_bounds\<close>, which is not among the sources; the specification
  describes a bounds validator with the operations \<open>check\<close> and \<open>render\<close>. Every
  definition of this section follows the specification (its data model, the public
  contract of the validator, its error handling and its glossary).

  An observation table is an ordered sequence of rows, a row a mapping from field names
  to numeric values in which a value may be null: for a row \<open>r\<close>, \<open>r f = None\<close> says
  that the row does not carry the field \<open>f\<close>, \<open>r f = Some None\<close> that its value is null.
  Values are exact numbers.
\<close>

type_synonym row = "string \<rightharpoonup> real option"

type_synonym table = "row list"

text \<open>
  Modelled from the spec: the bound specification and the validation result. A tail
  bound is a fixed bound, an absolute limit for every value, or a quantile bound, a
  limit for the quantile of the given level. The central tendency is the mean or the
  median, with an acceptable range.
\<close>

datatype bound = Fixed real | Quantile real real

datatype center_mode = Mean | Median

record bound_spec =
  field :: string
  lower :: bound
  upper :: bound
  center :: center_mode
  center_range :: "real \<times> real"

record validation_result =
  observed_tail_low :: real
  observed_tail_high :: real
  observed_central :: real
  tails_pass :: bool
  center_pass :: bool
  outliers :: "nat list"

datatype error = MissingFieldError | EmptyTableError | InvalidBoundsError

text \<open>
  Modelled from the spec: the empirical quantile. The specification asks for one
  interpolation rule for all fields and runs and does not name it, so the rule is a
  parameter of the validator. With \<open>n\<close> sorted values the
  quantile of level \<open>q\<close> stands at position \<open>h = q * (n - 1)\<close>, between the values at
  \<open>\<lfloor>h\<rfloor>\<close> and at \<open>\<lfloor>h\<rfloor> + 1\<close>. A level is meant to lie in \<open>[0, 1]\<close>; it is cut to this
  interval.
\<close>

datatype interpolation = Linear | Lower | Higher | Midpoint | Nearest

definition quantile :: "interpolation \<Rightarrow> real \<Rightarrow> real list \<Rightarrow> real" where
  "quantile m q vs =
     (let s = sort vs;
          n = length s;
          h = max 0 (min 1 q) * of_nat (n - 1);
          i = nat \<lfloor>h\<rfloor>;
          j = min (i + 1) (n - 1);
          g = h - of_int \<lfloor>h\<rfloor>
      in case m of
           Linear \<Rightarrow> s ! i + g * (s ! j - s ! i)
         | Lower \<Rightarrow> s ! i
         | Higher \<Rightarrow> (if g = 0 then s ! i else s ! j)
         | Midpoint \<Rightarrow> (s ! i + (if g = 0 then s ! i else s ! j)) / 2
         | Nearest \<Rightarrow> s ! min (nat (round_half_even h)) (n - 1))"

text \<open>
  Modelled from the spec: the central tendency, the mean or the median of the values,
  and the declared limit of a tail bound.
\<close>

definition mean :: "real list \<Rightarrow> real" where
  "mean vs = sum_list vs / of_nat (length vs)"

definition median :: "real list \<Rightarrow> real" where
  "median vs =
     (let s = sort vs; n = length s
      in if odd n then s ! (n div 2) else (s ! (n div 2 - 1) + s ! (n div 2)) / 2)"

fun central :: "center_mode \<Rightarrow> real list \<Rightarrow> real" where
  "central Mean vs = mean vs"
| "central Median vs = median vs"

fun bound_value :: "bound \<Rightarrow> real" where
  "bound_value (Fixed b) = b"
| "bound_value (Quantile q b) = b"

text \<open>
  Modelled from the spec: the observed extremal values, for a quantile bound the
  empirical quantile of its level, for a fixed bound the smallest and the largest value.
\<close>

fun observed_low :: "interpolation \<Rightarrow> bound \<Rightarrow> real list \<Rightarrow> real" where
  "observed_low m (Fixed b) vs = Min (set vs)"
| "observed_low m (Quantile q b) vs = quantile m q vs"

fun observed_high :: "interpolation \<Rightarrow> bound \<Rightarrow> real list \<Rightarrow> real" where
  "observed_high m (Fixed b) vs = Max (set vs)"
| "observed_high m (Quantile q b) vs = quantile m q vs"

text \<open>
  Modelled from the spec: a table has a field when every row carries it; the values of a
  field are its non-null values in the order of the rows; a row is an outlier row when
  its value lies beyond a declared tail bound.
\<close>

definition has_field :: "table \<Rightarrow> string \<Rightarrow> bool" where
  "has_field t f = list_all (\<lambda>r. r f \<noteq> None) t"

definition value_of :: "row \<Rightarrow> string \<Rightarrow> real option" where
  "value_of r f = (case r f of Some (Some v) \<Rightarrow> Some v | _ \<Rightarrow> None)"

definition field_values :: "table \<Rightarrow> string \<Rightarrow> real list" where
  "field_values t f = List.map_filter (\<lambda>r. value_of r f) t"

definition beyond :: "real \<Rightarrow> real \<Rightarrow> real option \<Rightarrow> bool" where
  "beyond lo hi c = (case c of None \<Rightarrow> False | Some v \<Rightarrow> v < lo \<or> hi < v)"

definition outlier_rows :: "table \<Rightarrow> string \<Rightarrow> real \<Rightarrow> real \<Rightarrow> nat list" where
  "outlier_rows t f lo hi = filter (\<lambda>i. beyond lo hi (value_of (t ! i) f)) [0..<length t]"

text \<open>
  Modelled from the spec: \<open>check(table, bound_spec)\<close> of the bounds validator, which is
  not among the sources. The three errors are looked for before anything is computed
  for the result. The specification does not say in which order; here the missing field
  comes first, then the order of the bounds, then the lack of values, without which
  quantile and mean are undefined. The tail check compares the observed extremal values
  with the declared limits, the center check the central tendency with its range; the
  outlier rows are the rows whose value lies beyond a declared tail bound.
\<close>

definition check :: "interpolation \<Rightarrow> table \<Rightarrow> bound_spec \<Rightarrow> error + validation_result" where
  "check m t s =
     (if \<not> has_field t (field s) then Inl MissingFieldError
      else if bound_value (upper s) < bound_value (lower s) then Inl InvalidBoundsError
      else
        (let vs = field_values t (field s)
         in if vs = [] then Inl EmptyTableError
            else
              (let lo = observed_low m (lower s) vs;
                   hi = observed_high m (upper s) vs;
                   c = central (center s) vs
               in Inr \<lparr>observed_tail_low = lo,
                       observed_tail_high = hi,
                       observed_central = c,
                       tails_pass = (bound_value (lower s) \<le> lo \<and> hi \<le> bound_value (upper s)),
                       center_pass = (fst (center_range s) \<le> c \<and> c \<le> snd (center_range s)),
                       outliers =
                         outlier_rows t (field s) (bound_value (lower s))
                           (bound_value (upper s))\<rparr>)))"

section \<open>Example inputs\<close>

text \<open>
  A table of plants with a zero and a null capacity, and an observation table with a
  bound specification.
\<close>

definition example_plants :: "cell dataframe" where
  "example_plants =
     [(''plant_name_ferc1'', [Num 1, Num 2, Num 3]),
      (''capacity_mw'', [Num 100, Num 0, Null]),
      (''water_limited_capacity_mw'', [Num 90, Num 5, Num 7]),
      (''not_water_limited_capacity_mw'', [Num 95, Null, Num 8]),
      (''peak_demand_mw'', [Num 80, Num 0, Num 9]),
      (''plant_capability_mw'', [Num 99, Num 6, Null])]"

definition example_table :: table where
  "example_table =
     [[''capacity_ratio'' \<mapsto> Some (4 / 5), ''heat_rate'' \<mapsto> Some 10],
      [''capacity_ratio'' \<mapsto> Some (9 / 10), ''heat_rate'' \<mapsto> None],
      [''capacity_ratio'' \<mapsto> Some 1, ''heat_rate'' \<mapsto> Some 12],
      [''capacity_ratio'' \<mapsto> Some 1, ''heat_rate'' \<mapsto> Some 11],
      [''capacity_ratio'' \<mapsto> Some (9 / 10), ''heat_rate'' \<mapsto> Some 9]]"

definition example_spec :: bound_spec where
  "example_spec =
     \<lparr>field = ''capacity_ratio'',
      lower = Quantile (1 / 20) (7 / 10),
      upper = Quantile (19 / 20) (11 / 10),
      center = Mean,
      center_range = (4 / 5, 1)\<rparr>"

section \<open>Properties of the CSV size estimator\<close>



lemma memory_check_above_threshold:
  "memory_check_cell \<lparr>index_bytes = 132, column_bytes = [(''a'', 314572800), (''b'', 7)]\<rparr>
     = Completed [''Estimated CSV size: 600.00 MB'']"
  by (simp add: memory_check_cell_def format_2f_def csv_size_estimate_mb_def mem_usage_mb_def
      mem_usage_bytes_def memory_usage_deep_def round_half_even_def Let_def str_nat.simps
      digit_char_def)

lemma format_2f_tie: "format_2f (1 / 8) = ''0.12''" and "format_2f (3 / 8) = ''0.38''"
  by (simp_all add: format_2f_def round_half_even_def Let_def str_nat.simps digit_char_def)

section \<open>The chart cells of the VCE RARE notebook\<close>

lemmas notebook_cells =
  vcerare_notebook_def cell_imports_def cell_load_def cell_filter_def
  cell_random_county_def cell_hist_settings_def cell_histogram_def cell_memory_check_def
  cell_download_def cell_annual_settings_def cell_annual_stats_def cell_annual_chart_def
  cell_monthly_settings_def cell_monthly_stats_def cell_monthly_chart_def cell_last_def

lemma run_cells_vcerare:
  assumes "''print'' \<in> B" "''list'' \<in> B"
    and "''gen_type'' \<notin> B" "''year'' \<notin> B" "''custom_colors'' \<notin> B"
  shows "run_cells B [] vcerare_notebook =
     [Finished 0, Finished 0, Finished 0, Finished 0, Finished 0,
      Failed (NameError ''gen_type'') 0, Finished 0, Finished 0, Finished 0, Finished 0,
      Failed (NameError ''year'') 0, Finished 0, Finished 0,
      Failed (NameError ''year'') 0, Finished 0]"
  using assms by (simp add: notebook_cells)

lemma run_all_vcerare:
  assumes "''print'' \<in> B" "''list'' \<in> B"
    and "''gen_type'' \<notin> B" "''year'' \<notin> B" "''custom_colors'' \<notin> B"
  shows "run_all B [] vcerare_notebook =
     [Finished 0, Finished 0, Finished 0, Finished 0, Finished 0,
      Failed (NameError ''gen_type'') 0]"
  using assms by (simp add: notebook_cells)

lemma vcerare_defined_names:
  "''gen_type'' \<notin> defined_names vcerare_notebook"
  "''year'' \<notin> defined_names vcerare_notebook"
  "''custom_colors'' \<notin> defined_names vcerare_notebook"
  "''hist_gen_type'' \<in> defined_names vcerare_notebook"
  by (simp_all add: notebook_cells defined_names_def)

lemma vcerare_chart_cells:
  "vcerare_notebook ! 5 = cell_histogram"
  "vcerare_notebook ! 10 = cell_annual_chart"
  "vcerare_notebook ! 13 = cell_monthly_chart"
  by (simp_all add: vcerare_notebook_def)

lemma vcerare_reads:
  "''gen_type'' \<in> set (concat (map reads cell_histogram))"
  "''year'' \<in> set (concat (map reads cell_annual_chart))"
  "''year'' \<in> set (concat (map reads cell_monthly_chart))"
  "''custom_colors'' \<in> set (concat (map reads cell_monthly_chart))"
  by (simp_all add: notebook_cells)

text \<open>
  Claim C10. The chart cells read names that no cell of the notebook binds: the
  histogram cell reads \<open>gen_type\<close>, where the notebook binds \<open>hist_gen_type\<close> only, and
  the two Altair cells read \<open>year\<close> and \<open>custom_colors\<close>. In a kernel that does not bind
  these names by itself, going through the notebook from top to bottom, each of the
  three cells ends in a \<open>NameError\<close> with no chart displayed: \<open>gen_type\<close> in the
  histogram cell, \<open>year\<close> in both Altair cells (where \<open>custom_colors\<close> is read after
  \<open>year\<close> and is never reached). Running all cells at once stops at the histogram cell.
\<close>

theorem chart_cells_raise_name_error:
  assumes "''print'' \<in> B" "''list'' \<in> B"
    and "''gen_type'' \<notin> B" "''year'' \<notin> B" "''custom_colors'' \<notin> B"
  shows "''gen_type'' \<notin> defined_names vcerare_notebook
     \<and> ''hist_gen_type'' \<in> defined_names vcerare_notebook
     \<and> ''year'' \<notin> defined_names vcerare_notebook
     \<and> ''custom_colors'' \<notin> defined_names vcerare_notebook
     \<and> ''gen_type'' \<in> set (concat (map reads cell_histogram))
     \<and> ''year'' \<in> set (concat (map reads cell_annual_chart))
     \<and> ''year'' \<in> set (concat (map reads cell_monthly_chart))
     \<and> ''custom_colors'' \<in> set (concat (map reads cell_monthly_chart))
     \<and> vcerare_notebook ! 5 = cell_histogram
     \<and> vcerare_notebook ! 10 = cell_annual_chart
     \<and> vcerare_notebook ! 13 = cell_monthly_chart
     \<and> run_cells B [] vcerare_notebook ! 5 = Failed (NameError ''gen_type'') 0
     \<and> run_cells B [] vcerare_notebook ! 10 = Failed (NameError ''year'') 0
     \<and> run_cells B [] vcerare_notebook ! 13 = Failed (NameError ''year'') 0
     \<and> run_all B [] vcerare_notebook
        = [Finished 0, Finished 0, Finished 0, Finished 0, Finished 0,
           Failed (NameError ''gen_type'') 0]"
  unfolding run_cells_vcerare [OF assms] run_all_vcerare [OF assms]
  using vcerare_defined_names vcerare_chart_cells vcerare_reads by simp

theorem chart_cells_raise_name_error_witness:
  "''print'' \<in> {''print'', ''list''}
   \<and> ''gen_type'' \<notin> {''print'', ''list''}
   \<and> ''year'' \<notin> {''print'', ''list''}
   \<and> ''custom_colors'' \<notin> {''print'', ''list''}
   \<and> run_cells {''print'', ''list''} [] vcerare_notebook ! 5 = Failed (NameError ''gen_type'') 0
   \<and> run_cells {''print'', ''list''} [] vcerare_notebook ! 10 = Failed (NameError ''year'') 0
   \<and> run_cells {''print'', ''list''} [] vcerare_notebook ! 13 = Failed (NameError ''year'') 0"
  using chart_cells_raise_name_error [of "{''print'', ''list''}"] by simp

section \<open>The derived ratio columns\<close>

lemma map_of_setitem: "map_of (setitem data k v) n = (if n = k then Some v else map_of data n)"
  by (induction data k v rule: setitem.induct) auto

lemma truediv_nth:
  "i < length a \<Longrightarrow> i < length b \<Longrightarrow> truediv dv a b ! i = dv (a ! i) (b ! i)"
  by (simp add: truediv_def)

lemma length_truediv: "length (truediv dv a b) = min (length a) (length b)"
  by (simp add: truediv_def)

lemma ratio_of_Inr:
  assumes "map_of x num = Some a" and "map_of x ''capacity_mw'' = Some b"
  shows "ratio_of dv num x = Inr (truediv dv a b)"
  using assms by (simp add: ratio_of_def getattr_def)

text \<open>
  Claim C8. When the table has the capacity column and the four columns that are divided
  by it, the cell raises nothing and every ratio column is the quotient, row by row, of
  its column by \<open>capacity_mw\<close>: at every row, also where the capacity is zero or null,
  the value is what the division of the two cells yields. No row is treated apart.
\<close>

theorem ratio_columns_unguarded:
  assumes cap: "map_of tbl ''capacity_mw'' = Some cap"
    and wl: "map_of tbl ''water_limited_capacity_mw'' = Some wl"
    and nwl: "map_of tbl ''not_water_limited_capacity_mw'' = Some nwl"
    and pk: "map_of tbl ''peak_demand_mw'' = Some pk"
    and pc: "map_of tbl ''plant_capability_mw'' = Some pc"
  shows "\<exists>out. plants_steam_ferc1 dv tbl = Inr out
      \<and> map_of out ''water_limited_ratio'' = Some (truediv dv wl cap)
      \<and> map_of out ''not_water_limited_ratio'' = Some (truediv dv nwl cap)
      \<and> map_of out ''peak_demand_ratio'' = Some (truediv dv pk cap)
      \<and> map_of out ''capability_ratio'' = Some (truediv dv pc cap)
      \<and> (\<forall>i. i < length cap \<and> i < length wl \<longrightarrow> truediv dv wl cap ! i = dv (wl ! i) (cap ! i))
      \<and> (\<forall>i. i < length cap \<and> i < length nwl \<longrightarrow> truediv dv nwl cap ! i = dv (nwl ! i) (cap ! i))
      \<and> (\<forall>i. i < length cap \<and> i < length pk \<longrightarrow> truediv dv pk cap ! i = dv (pk ! i) (cap ! i))
      \<and> (\<forall>i. i < length cap \<and> i < length pc \<longrightarrow> truediv dv pc cap ! i = dv (pc ! i) (cap ! i))"
proof -
  let ?d1 = "setitem tbl ''water_limited_ratio'' (truediv dv wl cap)"
  let ?d2 = "setitem ?d1 ''not_water_limited_ratio'' (truediv dv nwl cap)"
  let ?d3 = "setitem ?d2 ''peak_demand_ratio'' (truediv dv pk cap)"
  let ?d4 = "setitem ?d3 ''capability_ratio'' (truediv dv pc cap)"
  have r1: "ratio_of dv ''water_limited_capacity_mw'' tbl = Inr (truediv dv wl cap)"
    using wl cap by (rule ratio_of_Inr)
  have r2: "ratio_of dv ''not_water_limited_capacity_mw'' ?d1 = Inr (truediv dv nwl cap)"
    by (rule ratio_of_Inr) (simp_all add: map_of_setitem nwl cap)
  have r3: "ratio_of dv ''peak_demand_mw'' ?d2 = Inr (truediv dv pk cap)"
    by (rule ratio_of_Inr) (simp_all add: map_of_setitem pk cap)
  have r4: "ratio_of dv ''plant_capability_mw'' ?d3 = Inr (truediv dv pc cap)"
    by (rule ratio_of_Inr) (simp_all add: map_of_setitem pc cap)
  have run: "plants_steam_ferc1 dv tbl = Inr ?d4"
    unfolding plants_steam_ferc1_def by (simp add: r1 r2 r3 r4)
  have cols: "map_of ?d4 ''water_limited_ratio'' = Some (truediv dv wl cap)"
    "map_of ?d4 ''not_water_limited_ratio'' = Some (truediv dv nwl cap)"
    "map_of ?d4 ''peak_demand_ratio'' = Some (truediv dv pk cap)"
    "map_of ?d4 ''capability_ratio'' = Some (truediv dv pc cap)"
    by (simp_all add: map_of_setitem)
  show ?thesis
    using run cols by (simp add: truediv_nth)
qed

theorem ratio_columns_unguarded_witness:
  "map_of example_plants ''capacity_mw'' = Some [Num 100, Num 0, Null]
   \<and> (\<exists>out. plants_steam_ferc1 Quot example_plants = Inr out
        \<and> map_of out ''water_limited_ratio''
            = Some [Quot (Num 90) (Num 100), Quot (Num 5) (Num 0), Quot (Num 7) Null]
        \<and> map_of out ''not_water_limited_ratio''
            = Some [Quot (Num 95) (Num 100), Quot Null (Num 0), Quot (Num 8) Null]
        \<and> map_of out ''peak_demand_ratio''
            = Some [Quot (Num 80) (Num 100), Quot (Num 0) (Num 0), Quot (Num 9) Null]
        \<and> map_of out ''capability_ratio''
            = Some [Quot (Num 99) (Num 100), Quot (Num 6) (Num 0), Quot Null Null])"
proof -
  have cap: "map_of example_plants ''capacity_mw'' = Some [Num 100, Num 0, Null]"
    and wl: "map_of example_plants ''water_limited_capacity_mw'' = Some [Num 90, Num 5, Num 7]"
    and nwl: "map_of example_plants ''not_water_limited_capacity_mw'' = Some [Num 95, Null, Num 8]"
    and pk: "map_of example_plants ''peak_demand_mw'' = Some [Num 80, Num 0, Num 9]"
    and pc: "map_of example_plants ''plant_capability_mw'' = Some [Num 99, Num 6, Null]"
    by (simp_all add: example_plants_def)
  from ratio_columns_unguarded [OF cap wl nwl pk pc, of Quot]
  obtain out where "plants_steam_ferc1 Quot example_plants = Inr out"
    and "map_of out ''water_limited_ratio'' = Some (truediv Quot [Num 90, Num 5, Num 7] [Num 100, Num 0, Null])"
    and "map_of out ''not_water_limited_ratio'' = Some (truediv Quot [Num 95, Null, Num 8] [Num 100, Num 0, Null])"
    and "map_of out ''peak_demand_ratio'' = Some (truediv Quot [Num 80, Num 0, Num 9] [Num 100, Num 0, Null])"
    and "map_of out ''capability_ratio'' = Some (truediv Quot [Num 99, Num 6, Null] [Num 100, Num 0, Null])"
    by blast
  then show ?thesis
    using cap by (auto simp: truediv_def)
qed

section \<open>The bounds validator: observed values and outlier rows\<close>

lemma set_field_values:
  "set (field_values t f) = {v. \<exists>r \<in> set t. value_of r f = Some v}"
  by (induction t) (auto simp: field_values_def split: option.splits)

lemma value_in_field_values:
  "i < length t \<Longrightarrow> value_of (t ! i) f = Some v \<Longrightarrow> v \<in> set (field_values t f)"
  unfolding set_field_values using nth_mem by blast

lemma convex_between:
  fixes a b g lo hi :: real
  assumes "lo \<le> a" "a \<le> hi" "lo \<le> b" "b \<le> hi" "0 \<le> g" "g \<le> 1"
  shows "lo \<le> a + g * (b - a) \<and> a + g * (b - a) \<le> hi"
proof -
  have eq: "a + g * (b - a) = (1 - g) * a + g * b"
    by (simp add: algebra_simps)
  have "(1 - g) * lo \<le> (1 - g) * a" "g * lo \<le> g * b"
    using assms by (simp_all add: mult_left_mono)
  then have "(1 - g) * lo + g * lo \<le> (1 - g) * a + g * b"
    by linarith
  moreover have "(1 - g) * lo + g * lo = lo"
    by (simp add: algebra_simps)
  moreover have "(1 - g) * a \<le> (1 - g) * hi" "g * b \<le> g * hi"
    using assms by (simp_all add: mult_left_mono)
  then have "(1 - g) * a + g * b \<le> (1 - g) * hi + g * hi"
    by linarith
  moreover have "(1 - g) * hi + g * hi = hi"
    by (simp add: algebra_simps)
  ultimately show ?thesis
    unfolding eq by linarith
qed

lemma quantile_between:
  assumes ne: "vs \<noteq> []"
    and within: "\<And>v. v \<in> set vs \<Longrightarrow> lo \<le> v \<and> v \<le> hi"
  shows "lo \<le> quantile m q vs \<and> quantile m q vs \<le> hi"
proof -
  define s where "s = sort vs"
  define n where "n = length s"
  define h where "h = max 0 (min 1 q) * of_nat (n - 1)"
  define i where "i = nat \<lfloor>h\<rfloor>"
  define j where "j = min (i + 1) (n - 1)"
  define g where "g = h - of_int \<lfloor>h\<rfloor>"
  define e where "e = min (nat (round_half_even h)) (n - 1)"
  have n: "0 < n"
    using ne by (simp add: n_def s_def)
  have h0: "0 \<le> h"
    by (simp add: h_def)
  have "max 0 (min 1 q) \<le> 1"
    by simp
  then have "max 0 (min 1 q) * of_nat (n - 1) \<le> 1 * of_nat (n - 1)"
    by (rule mult_right_mono) simp
  then have h1: "h \<le> of_nat (n - 1)"
    by (simp add: h_def)
  have "\<lfloor>h\<rfloor> \<le> int (n - 1)"
    using h1 by linarith
  moreover have "0 \<le> \<lfloor>h\<rfloor>"
    using h0 by simp
  ultimately have i: "i < n"
    using n by (simp add: i_def)
  have j: "j < n"
    using n by (simp add: j_def)
  have e: "e < n"
    using n by (simp add: e_def)
  have g: "0 \<le> g" "g \<le> 1"
    unfolding g_def by linarith+
  have mem: "\<And>k. k < n \<Longrightarrow> lo \<le> s ! k \<and> s ! k \<le> hi"
  proof -
    fix k assume "k < n"
    then have "s ! k \<in> set s"
      by (simp add: n_def)
    then have "s ! k \<in> set vs"
      by (simp add: s_def)
    then show "lo \<le> s ! k \<and> s ! k \<le> hi"
      by (rule within)
  qed
  have lin: "lo \<le> s ! i + g * (s ! j - s ! i) \<and> s ! i + g * (s ! j - s ! i) \<le> hi"
    using mem [OF i] mem [OF j] g by (intro convex_between) simp_all
  have mid: "lo \<le> (s ! i + s ! j) / 2 \<and> (s ! i + s ! j) / 2 \<le> hi"
    "lo \<le> (s ! i + s ! i) / 2 \<and> (s ! i + s ! i) / 2 \<le> hi"
    using mem [OF i] mem [OF j] by simp_all
  have "quantile m q vs =
      (case m of
         Linear \<Rightarrow> s ! i + g * (s ! j - s ! i)
       | Lower \<Rightarrow> s ! i
       | Higher \<Rightarrow> (if g = 0 then s ! i else s ! j)
       | Midpoint \<Rightarrow> (s ! i + (if g = 0 then s ! i else s ! j)) / 2
       | Nearest \<Rightarrow> s ! e)"
    unfolding quantile_def Let_def s_def n_def h_def i_def j_def g_def e_def ..
  then show ?thesis
    using lin mid mem [OF i] mem [OF j] mem [OF e] by (cases m) (simp_all split: if_splits)
qed

lemma observed_low_between:
  assumes "vs \<noteq> []" and "\<And>v. v \<in> set vs \<Longrightarrow> lo \<le> v \<and> v \<le> hi"
  shows "lo \<le> observed_low m b vs \<and> observed_low m b vs \<le> hi"
proof (cases b)
  case (Fixed x)
  have "Min (set vs) \<in> set vs"
    using assms(1) by (intro Min_in) simp_all
  then show ?thesis
    using assms(2) Fixed by simp
next
  case (Quantile q x)
  then show ?thesis
    using quantile_between [OF assms, of m q] by simp
qed

lemma observed_high_between:
  assumes "vs \<noteq> []" and "\<And>v. v \<in> set vs \<Longrightarrow> lo \<le> v \<and> v \<le> hi"
  shows "lo \<le> observed_high m b vs \<and> observed_high m b vs \<le> hi"
proof (cases b)
  case (Fixed x)
  have "Max (set vs) \<in> set vs"
    using assms(1) by (intro Max_in) simp_all
  then show ?thesis
    using assms(2) Fixed by simp
next
  case (Quantile q x)
  then show ?thesis
    using quantile_between [OF assms, of m q] by simp
qed

lemma check_Inr:
  assumes "has_field t (field s)"
    and "bound_value (lower s) \<le> bound_value (upper s)"
    and "field_values t (field s) \<noteq> []"
  shows "check m t s =
     Inr \<lparr>observed_tail_low = observed_low m (lower s) (field_values t (field s)),
          observed_tail_high = observed_high m (upper s) (field_values t (field s)),
          observed_central = central (center s) (field_values t (field s)),
          tails_pass =
            (bound_value (lower s) \<le> observed_low m (lower s) (field_values t (field s))
             \<and> observed_high m (upper s) (field_values t (field s)) \<le> bound_value (upper s)),
          center_pass =
            (fst (center_range s) \<le> central (center s) (field_values t (field s))
             \<and> central (center s) (field_values t (field s)) \<le> snd (center_range s)),
          outliers =
            outlier_rows t (field s) (bound_value (lower s)) (bound_value (upper s))\<rparr>"
  using assms by (simp add: check_def Let_def)

lemma set_outlier_rows:
  "set (outlier_rows t f lo hi)
     = {i. i < length t \<and> (\<exists>v. value_of (t ! i) f = Some v \<and> (v < lo \<or> hi < v))}"
  by (auto simp: outlier_rows_def beyond_def split: option.splits)

lemma outlier_rows_empty:
  assumes "\<And>v. v \<in> set (field_values t f) \<Longrightarrow> lo \<le> v \<and> v \<le> hi"
  shows "outlier_rows t f lo hi = []"
proof -
  have "set (outlier_rows t f lo hi) = {}"
    unfolding set_outlier_rows using assms value_in_field_values by fastforce
  then show ?thesis by simp
qed

section \<open>The bounds validator: the verdicts\<close>

text \<open>
  Claim C1. For a table that carries the named field with at least one non-null value
  and a specification whose lower bound is not above its upper bound: if every non-null
  value of the field lies within the declared bounds and the central tendency lies
  within its declared range, \<open>check\<close> returns a result in which the tail check and the
  center check pass and the outlier set is empty. This holds for every interpolation
  rule and for fixed and quantile bounds alike.
\<close>

theorem check_within_bounds_passes:
  assumes present: "has_field t (field s)"
    and ordered: "bound_value (lower s) \<le> bound_value (upper s)"
    and some: "field_values t (field s) \<noteq> []"
    and within: "\<forall>v \<in> set (field_values t (field s)).
        bound_value (lower s) \<le> v \<and> v \<le> bound_value (upper s)"
    and center_lo: "fst (center_range s) \<le> central (center s) (field_values t (field s))"
    and center_hi: "central (center s) (field_values t (field s)) \<le> snd (center_range s)"
  shows "\<exists>r. check m t s = Inr r \<and> tails_pass r \<and> center_pass r \<and> outliers r = []"
proof -
  let ?vs = "field_values t (field s)"
  have w: "\<And>v. v \<in> set ?vs \<Longrightarrow> bound_value (lower s) \<le> v \<and> v \<le> bound_value (upper s)"
    using within by blast
  have lo: "bound_value (lower s) \<le> observed_low m (lower s) ?vs"
    using observed_low_between [OF some w] by blast
  have hi: "observed_high m (upper s) ?vs \<le> bound_value (upper s)"
    using observed_high_between [OF some w] by blast
  have out: "outlier_rows t (field s) (bound_value (lower s)) (bound_value (upper s)) = []"
    using w by (rule outlier_rows_empty)
  show ?thesis
    unfolding check_Inr [OF present ordered some]
    using lo hi out center_lo center_hi by simp
qed

theorem check_within_bounds_passes_witness:
  "has_field example_table (field example_spec)
   \<and> field_values example_table (field example_spec) = [4 / 5, 9 / 10, 1, 1, 9 / 10]
   \<and> central (center example_spec) (field_values example_table (field example_spec)) = 23 / 25
   \<and> (\<exists>r. check Linear example_table example_spec = Inr r
        \<and> tails_pass r \<and> center_pass r \<and> outliers r = [])"
proof -
  have f: "field example_spec = ''capacity_ratio''"
    by (simp add: example_spec_def)
  have vs: "field_values example_table ''capacity_ratio'' = [4 / 5, 9 / 10, 1, 1, 9 / 10]"
    by (simp add: field_values_def value_of_def example_table_def)
  have present: "has_field example_table (field example_spec)"
    by (simp add: f has_field_def example_table_def)
  have ordered: "bound_value (lower example_spec) \<le> bound_value (upper example_spec)"
    by (simp add: example_spec_def)
  have some: "field_values example_table (field example_spec) \<noteq> []"
    by (simp add: f vs)
  have within: "\<forall>v \<in> set (field_values example_table (field example_spec)).
      bound_value (lower example_spec) \<le> v \<and> v \<le> bound_value (upper example_spec)"
    by (simp add: f vs) (simp add: example_spec_def)
  have c: "central (center example_spec) (field_values example_table (field example_spec)) = 23 / 25"
    by (simp add: f vs) (simp add: example_spec_def mean_def)
  have lo: "fst (center_range example_spec)
      \<le> central (center example_spec) (field_values example_table (field example_spec))"
    unfolding c by (simp add: example_spec_def)
  have hi: "central (center example_spec) (field_values example_table (field example_spec))
      \<le> snd (center_range example_spec)"
    unfolding c by (simp add: example_spec_def)
  from check_within_bounds_passes [OF present ordered some within lo hi, of Linear]
  show ?thesis
    using present vs c f by simp
qed

end
